theory Spec2Isabelle
  imports Main "HOL-Library.Sublist"
begin

section \<open>JavaScript values and strings\<close>

text \<open>
  The three functions of the repository take a JavaScript value of any type. Of a value
  that is not a string, \<open>null\<close> or \<open>undefined\<close> the code reads two things only: its
  \<open>typeof\<close>, and its conversion to a string inside the template literal of the error
  message. That conversion can throw. The values are:
  \<^item> \<open>undefined\<close>, \<open>null\<close>, booleans, strings;
  \<^item> a number, given by the string \<open>Number.prototype.toString\<close> returns for it (\<open>123\<close>,
    \<open>1.5\<close>, \<open>1e+21\<close>, \<open>NaN\<close>): the code reads nothing else of a number;
  \<^item> a BigInt, printed in decimal;
  \<^item> a Symbol with its description: converting it to a string throws a \<open>TypeError\<close>;
  \<^item> an array with the built-in \<open>toString\<close>, which joins the elements with commas;
  \<^item> any other object or function, given by whether it is callable and by what converting
    it to a string does: return a string (\<open>[object Object]\<close> for a plain object, the source
    text for a function, whatever its own \<open>toString\<close> returns) or throw (a \<open>TypeError\<close> for
    an object without \<open>toString\<close> and \<open>valueOf\<close>, whatever its own \<open>toString\<close> throws).

  A string is a list of code units. The model takes Isabelle's 8-bit \<open>char\<close> for the code
  units \<open>0..255\<close> (the Latin-1 block of Unicode), so it covers the strings all of whose
  code units are below 256; the character classes below are the restrictions of the
  JavaScript classes to that range.
\<close>

text \<open>
  What a call can throw: a \<open>TypeError\<close> with its message, or any other value thrown by a
  \<open>toString\<close> method of the caller, named by a string.
\<close>

datatype js_error = TypeError string | Thrown string

datatype js_value =
    JUndefined
  | JNull
  | JBoolean bool
  | JNumber string
  | JBigInt int
  | JString string
  | JSymbol string
  | JArray "js_value list"
  | JObject bool "js_error + string"


type_synonym console = "string list"

subsection \<open>Character classes\<close>

definition code :: "char \<Rightarrow> nat" where
  "code c = of_char c"

text \<open>\<open>[a-z]\<close>, \<open>[A-Z]\<close> and \<open>\w\<close> = \<open>[A-Za-z0-9_]\<close> of a regular expression without flags \<open>i\<close>, \<open>u\<close>.\<close>

definition is_lower_az :: "char \<Rightarrow> bool" where
  "is_lower_az c \<longleftrightarrow> 97 \<le> code c \<and> code c \<le> 122"

definition is_upper_AZ :: "char \<Rightarrow> bool" where
  "is_upper_AZ c \<longleftrightarrow> 65 \<le> code c \<and> code c \<le> 90"

definition is_digit_09 :: "char \<Rightarrow> bool" where
  "is_digit_09 c \<longleftrightarrow> 48 \<le> code c \<and> code c \<le> 57"

definition is_word_char :: "char \<Rightarrow> bool" where
  "is_word_char c \<longleftrightarrow> is_lower_az c \<or> is_upper_AZ c \<or> is_digit_09 c \<or> c = CHR ''_''"

text \<open>
  \<open>\s\<close>, which is also what \<open>trim\<close> removes: TAB, LF, VT, FF, CR, SPACE and NO-BREAK SPACE
  (the white space and line terminators below 256).
\<close>

definition is_space :: "char \<Rightarrow> bool" where
  "is_space c \<longleftrightarrow> List.member [9, 10, 11, 12, 13, 32, 160] (code c)"

text \<open>
  \<open>\p{P}\<close>: the code points below 256 of Unicode's general category Punctuation:
  \<open>! " # % & ' ( ) * , - . / : ; ? @ [ \ ] _ { }\<close> and the Latin-1 signs
  \<open>A1 A7 AB B6 B7 BB BF\<close>. The symbols \<open>$ + < = > ^ ` | ~\<close> are of category Symbol.
\<close>

definition is_punct :: "char \<Rightarrow> bool" where
  "is_punct c \<longleftrightarrow> List.member
     [33, 34, 35, 37, 38, 39, 40, 41, 42, 44, 45, 46, 47, 58, 59, 63, 64, 91, 92, 93, 95,
      123, 125, 161, 167, 171, 182, 183, 187, 191] (code c)"

text \<open>
  \<open>String.prototype.toLowerCase\<close> on one code unit below 256: \<open>A-Z\<close> and the Latin-1
  capitals \<open>C0-DE\<close> (without the multiplication sign \<open>D7\<close>) move up by 32.
\<close>

definition to_lower :: "char \<Rightarrow> char" where
  "to_lower c =
     (if is_upper_AZ c \<or> (192 \<le> code c \<and> code c \<le> 222 \<and> code c \<noteq> 215)
      then char_of (code c + 32) else c)"

definition toLowerCase :: "string \<Rightarrow> string" where
  "toLowerCase s = map to_lower s"

definition trim :: "string \<Rightarrow> string" where
  "trim s = rev (dropWhile is_space (rev (dropWhile is_space s)))"

subsection \<open>\<open>typeof\<close> and conversion to a string\<close>

fun typeof :: "js_value \<Rightarrow> string" where
  "typeof JUndefined = ''undefined''"
| "typeof JNull = ''object''"
| "typeof (JBoolean b) = ''boolean''"
| "typeof (JNumber r) = ''number''"
| "typeof (JBigInt n) = ''bigint''"
| "typeof (JString s) = ''string''"
| "typeof (JSymbol d) = ''symbol''"
| "typeof (JArray xs) = ''object''"
| "typeof (JObject callable conversion) = (if callable then ''function'' else ''object'')"

fun join :: "string \<Rightarrow> string list \<Rightarrow> string" where
  "join sep [] = []"
| "join sep [w] = w"
| "join sep (w # ws) = w @ sep @ join sep ws"

fun digits :: "nat \<Rightarrow> string" where
  "digits n = (if n < 10 then [char_of (48 + n)] else digits (n div 10) @ [char_of (48 + n mod 10)])"

definition bigint_to_string :: "int \<Rightarrow> string" where
  "bigint_to_string n = (if n < 0 then CHR ''-'' # digits (nat (- n)) else digits (nat n))"

text \<open>The strings of a list of conversions, or the first error among them.\<close>

fun collect :: "(js_error + string) list \<Rightarrow> js_error + string list" where
  "collect [] = Inr []"
| "collect (Inl e # rs) = Inl e"
| "collect (Inr r # rs) = (case collect rs of Inl e \<Rightarrow> Inl e | Inr ss \<Rightarrow> Inr (r # ss))"

text \<open>
  The conversion a template literal applies to \<open>${input}\<close>; \<open>Inl\<close> is what it throws. An
  array converts its elements from left to right, \<open>null\<close> and \<open>undefined\<close> to the empty
  string, and joins them with commas; the first element that throws ends the conversion.
  The message of the \<open>TypeError\<close> for a Symbol is the engine's (here that of V8).
\<close>

fun js_to_string :: "js_value \<Rightarrow> js_error + string" where
  "js_to_string JUndefined = Inr ''undefined''"
| "js_to_string JNull = Inr ''null''"
| "js_to_string (JBoolean b) = Inr (if b then ''true'' else ''false'')"
| "js_to_string (JNumber r) = Inr r"
| "js_to_string (JBigInt n) = Inr (bigint_to_string n)"
| "js_to_string (JString s) = Inr s"
| "js_to_string (JSymbol d) = Inl (TypeError ''Cannot convert a Symbol value to a string'')"
| "js_to_string (JArray xs) =
     (case collect (map (\<lambda>x. if x = JUndefined \<or> x = JNull then Inr [] else js_to_string x) xs)
      of Inl e \<Rightarrow> Inl e | Inr ss \<Rightarrow> Inr (join '','' ss))"
| "js_to_string (JObject callable conversion) = conversion"

section \<open>\<open>toCamelCase\<close> (basic_prompt.js)\<close>

text \<open>The body is empty, so every call returns \<open>undefined\<close>.\<close>

definition toCamelCase :: "js_value \<Rightarrow> js_value" where
  "toCamelCase str = JUndefined"

section \<open>\<open>toKebabCase\<close> (chain_prompt.js)\<close>

text \<open>\<open>.replace(/_/g, ' ')\<close>\<close>

definition replace_underscores :: "string \<Rightarrow> string" where
  "replace_underscores s = map (\<lambda>c. if c = CHR ''_'' then CHR '' '' else c) s"

text \<open>\<open>.replace(/([a-z])([A-Z])/g, '$1 $2')\<close>: the scan resumes after the two matched characters.\<close>

fun split_camel :: "string \<Rightarrow> string" where
  "split_camel (a # b # cs) =
     (if is_lower_az a \<and> is_upper_AZ b then a # CHR '' '' # b # split_camel cs
      else a # split_camel (b # cs))"
| "split_camel cs = cs"

text \<open>\<open>.replace(/([A-Z])+/g, ' $&')\<close>: a space before every maximal run of capitals.\<close>

function space_upper_runs :: "string \<Rightarrow> string" where
  "space_upper_runs [] = []"
| "space_upper_runs (c # cs) =
     (if is_upper_AZ c
      then CHR '' '' # c # takeWhile is_upper_AZ cs @ space_upper_runs (dropWhile is_upper_AZ cs)
      else c # space_upper_runs cs)"
  by pat_completeness auto
termination
  by (relation "measure length") (auto simp: less_Suc_eq_le length_dropWhile_le)

text \<open>\<open>.replace(/[^\w\s-]/g, '')\<close>\<close>

definition strip_special :: "string \<Rightarrow> string" where
  "strip_special s = filter (\<lambda>c. is_word_char c \<or> is_space c \<or> c = CHR ''-'') s"

text \<open>\<open>.replace(/\s+/g, rep)\<close>: every maximal run of white space becomes \<open>rep\<close>.\<close>

function replace_spaces :: "string \<Rightarrow> string \<Rightarrow> string" where
  "replace_spaces rep [] = []"
| "replace_spaces rep (c # cs) =
     (if is_space c then rep @ replace_spaces rep (dropWhile is_space cs)
      else c # replace_spaces rep cs)"
  by pat_completeness auto
termination
  by (relation "measure (\<lambda>(rep, s). length s)") (auto simp: less_Suc_eq_le length_dropWhile_le)

text \<open>\<open>.replace(/^-+|-+$/g, '')\<close>: the leading and the trailing run of hyphens go.\<close>

definition strip_hyphens :: "string \<Rightarrow> string" where
  "strip_hyphens s =
     rev (dropWhile (\<lambda>c. c = CHR ''-'') (rev (dropWhile (\<lambda>c. c = CHR ''-'') s)))"

definition kebab_normalize :: "string \<Rightarrow> string" where
  "kebab_normalize input =
     replace_spaces '' ''
       (trim (strip_special (space_upper_runs (split_camel (replace_underscores input)))))"

definition kebab_of_string :: "string \<Rightarrow> string" where
  "kebab_of_string input =
     (if length input = 0 then []
      else strip_hyphens (replace_spaces ''-'' (toLowerCase (kebab_normalize input))))"

text \<open>
  The result pairs what the call writes with \<open>console.warn\<close> and what it returns or throws.
  The template literal of the message converts \<open>input\<close> to a string before the
  \<open>TypeError\<close> is built, so what that conversion throws leaves the function instead.
\<close>

definition toKebabCase :: "js_value \<Rightarrow> console \<times> (js_error + string)" where
  "toKebabCase input =
     (if input = JNull \<or> input = JUndefined
      then ([''Input is null or undefined, returning empty string''], Inr [])
      else case input of
        JString s \<Rightarrow> ([], Inr (kebab_of_string s))
      | _ \<Rightarrow>
          (case js_to_string input of
             Inl e \<Rightarrow> ([], Inl e)
           | Inr rendering \<Rightarrow>
               ([], Inl (TypeError (''Expected string input, received '' @ typeof input
                  @ ''. Value: '' @ rendering)))))"

section \<open>\<open>toDotCase\<close> (basic_prompt.js)\<close>

text \<open>
  \<open>[\s\-_\p{P}]\<close>, and \<open>split\<close> on the maximal runs of such characters: the pieces between
  the runs, an empty piece where a run starts or ends the string.
\<close>

definition is_separator :: "char \<Rightarrow> bool" where
  "is_separator c \<longleftrightarrow> is_space c \<or> c = CHR ''-'' \<or> c = CHR ''_'' \<or> is_punct c"

function split_on :: "(char \<Rightarrow> bool) \<Rightarrow> string \<Rightarrow> string list" where
  "split_on p s =
     (let piece = takeWhile (\<lambda>c. \<not> p c) s; rest = dropWhile (\<lambda>c. \<not> p c) s
      in if rest = [] then [piece] else piece # split_on p (dropWhile p rest))"
  by pat_completeness auto
termination
proof (relation "measure (\<lambda>(p, s). length s)")
  show "wf (measure (\<lambda>(p, s). length s))" by simp
next
  fix p :: "char \<Rightarrow> bool" and s piece rest
  assume r: "rest = dropWhile (\<lambda>c. \<not> p c) s" and ne: "rest \<noteq> []"
  from ne obtain c cs where rc: "rest = c # cs" by (cases rest) auto
  have "dropWhile (\<lambda>c. \<not> p c) s = c # cs" using r rc by simp
  then have "p c" by (simp add: dropWhile_eq_Cons_conv)
  then have "length (dropWhile p rest) < length rest"
    using rc length_dropWhile_le [of p cs] by simp
  moreover have "length rest \<le> length s" using r by (simp add: length_dropWhile_le)
  ultimately show "((p, dropWhile p rest), (p, s)) \<in> measure (\<lambda>(p, s). length s)" by simp
qed

declare split_on.simps [simp del]

definition dot_of_string :: "string \<Rightarrow> string" where
  "dot_of_string input =
     (let trimmed = trim input in
      if length trimmed = 0 then []
      else let words = filter (\<lambda>word. length word > 0) (split_on is_separator trimmed) in
        if length words = 0 then []
        else join ''.'' (map toLowerCase words))"

definition toDotCase :: "js_value \<Rightarrow> js_error + string" where
  "toDotCase input =
     (if input = JNull \<or> input = JUndefined then Inr []
      else case input of
        JString s \<Rightarrow> Inr (dot_of_string s)
      | _ \<Rightarrow>
          (case js_to_string input of
             Inl e \<Rightarrow> Inl e
           | Inr rendering \<Rightarrow>
               Inl (TypeError (''Expected a string, null, or undefined, but received ''
                  @ typeof input @ '': '' @ rendering))))"

text \<open>
  The words \<open>toDotCase\<close> joins: the non-empty pieces of the trimmed input, in lower case.
\<close>

definition dot_words :: "string \<Rightarrow> string list" where
  "dot_words s = map toLowerCase (filter (\<lambda>word. length word > 0) (split_on is_separator (trim s)))"

section \<open>Characters\<close>

lemma code_less: "code c < 256"
  by (simp add: code_def)

lemma code_eq_iff: "code c = code d \<longleftrightarrow> c = d"
  by (simp add: code_def)

lemma code_hyphen: "c = CHR ''-'' \<longleftrightarrow> code c = 45"
  using code_eq_iff [of c "CHR ''-''"] by (simp add: code_def)

lemma code_underscore: "c = CHR ''_'' \<longleftrightarrow> code c = 95"
  using code_eq_iff [of c "CHR ''_''"] by (simp add: code_def)

lemma code_blank: "c = CHR '' '' \<longleftrightarrow> code c = 32"
  using code_eq_iff [of c "CHR '' ''"] by (simp add: code_def)

lemma code_dot: "c = CHR ''.'' \<longleftrightarrow> code c = 46"
  using code_eq_iff [of c "CHR ''.''"] by (simp add: code_def)

lemma code_to_lower:
  "code (to_lower c) =
     (if (65 \<le> code c \<and> code c \<le> 90) \<or> (192 \<le> code c \<and> code c \<le> 222 \<and> code c \<noteq> 215)
      then code c + 32 else code c)"
proof -
  have "code c + 32 < 256" if "code c \<le> 222" using that by simp
  then show ?thesis
    by (auto simp: to_lower_def is_upper_AZ_def code_def)
qed

lemma is_space_code: "is_space c \<longleftrightarrow> code c \<in> {9, 10, 11, 12, 13, 32, 160}"
  by (simp add: is_space_def)

lemma is_punct_code: "is_punct c \<longleftrightarrow> code c \<in> {33, 34, 35, 37, 38, 39, 40, 41, 42, 44, 45, 46, 47, 58, 59, 63, 64, 91, 92, 93, 95,
      123, 125, 161, 167, 171, 182, 183, 187, 191}"
  by (simp add: is_punct_def)

lemma code_literals:
  "code (CHR ''-'') = 45" "code (CHR ''_'') = 95" "code (CHR '' '') = 32" "code (CHR ''.'') = 46"
  by (simp_all add: code_def)

lemmas class_defs = code_literals is_lower_az_def is_upper_AZ_def is_digit_09_def is_word_char_def
  is_space_code is_punct_code is_separator_def code_hyphen code_underscore code_blank code_dot code_to_lower

lemma to_lower_idem: "to_lower (to_lower c) = to_lower c"
  unfolding code_eq_iff [symmetric] by (simp add: code_to_lower)

lemma to_lower_separator: "is_separator (to_lower c) \<longleftrightarrow> is_separator c"
  by (auto simp: class_defs)

lemma to_lower_kebab_char:
  "is_lower_az c \<or> is_digit_09 c \<or> c = CHR ''-'' \<Longrightarrow> to_lower c = c"
  unfolding code_eq_iff [symmetric] by (auto simp: class_defs)

lemma to_lower_class:
  assumes "is_lower_az c \<or> is_upper_AZ c \<or> is_digit_09 c \<or> c = CHR '' '' \<or> c = CHR ''-''"
  shows "is_lower_az (to_lower c) \<or> is_digit_09 (to_lower c) \<or> to_lower c = CHR '' '' \<or> to_lower c = CHR ''-''"
  using assms by (auto simp: class_defs)


lemma separator_dot: "is_separator (CHR ''.'')"
  by (simp add: class_defs)

section \<open>The steps of \<open>toKebabCase\<close>\<close>

subsection \<open>Characters each step can leave\<close>


lemma set_replace_underscores:
  "set (replace_underscores s) \<subseteq> insert (CHR '' '') (set s - {CHR ''_''})"
  by (auto simp: replace_underscores_def)

lemma set_split_camel: "set (split_camel s) \<subseteq> insert (CHR '' '') (set s)"
  by (induction s rule: split_camel.induct) auto

lemma set_space_upper_runs: "set (space_upper_runs s) \<subseteq> insert (CHR '' '') (set s)"
  by (induction s rule: space_upper_runs.induct) (auto dest: set_takeWhileD set_dropWhileD)

lemma set_strip_special:
  "set (strip_special s) = {c \<in> set s. is_word_char c \<or> is_space c \<or> c = CHR ''-''}"
  by (auto simp: strip_special_def)

lemma strip_both_sublist: "sublist (rev (dropWhile P (rev (dropWhile P s)))) s"
proof -
  have "sublist (dropWhile P (rev (dropWhile P s))) (rev (dropWhile P s))" by simp
  then have "sublist (rev (dropWhile P (rev (dropWhile P s)))) (dropWhile P s)"
    by (simp add: sublist_rev_left)
  moreover have "sublist (dropWhile P s) s" by simp
  ultimately show ?thesis by (rule sublist_order.order_trans)
qed

lemma set_trim: "set (trim s) \<subseteq> set s"
  unfolding trim_def by (rule set_mono_sublist [OF strip_both_sublist])

lemma set_strip_hyphens: "set (strip_hyphens s) \<subseteq> set s"
  unfolding strip_hyphens_def by (rule set_mono_sublist [OF strip_both_sublist])

lemma set_replace_spaces:
  "set (replace_spaces rep s) \<subseteq> set rep \<union> {c \<in> set s. \<not> is_space c}"
  by (induction rep s rule: replace_spaces.induct) (auto dest: set_dropWhileD)

lemma kebab_normalize_chars:
  assumes "c \<in> set (kebab_normalize s)"
  shows "is_lower_az c \<or> is_upper_AZ c \<or> is_digit_09 c \<or> c = CHR '' '' \<or> c = CHR ''-''"
proof (cases "c = CHR '' ''")
  case True
  then show ?thesis by simp
next
  case False
  let ?u = "space_upper_runs (split_camel (replace_underscores s))"
  from assms False have "c \<in> set (trim (strip_special ?u))" and ns: "\<not> is_space c"
    using set_replace_spaces [of "'' ''" "trim (strip_special ?u)"]
    by (auto simp: kebab_normalize_def)
  then have "c \<in> set (strip_special ?u)" using set_trim by blast
  then have cu: "c \<in> set ?u" and cls: "is_word_char c \<or> is_space c \<or> c = CHR ''-''"
    by (simp_all add: set_strip_special)
  from cu False have "c \<in> set (replace_underscores s)"
    using set_space_upper_runs [of "split_camel (replace_underscores s)"]
      set_split_camel [of "replace_underscores s"] by blast
  then have "c \<noteq> CHR ''_''" using set_replace_underscores [of s] False by blast
  with cls ns show ?thesis by (auto simp: is_word_char_def)
qed

lemma lowered_chars:
  assumes "c \<in> set (toLowerCase (kebab_normalize s))"
  shows "is_lower_az c \<or> is_digit_09 c \<or> c = CHR '' '' \<or> c = CHR ''-''"
proof -
  from assms obtain d where d: "d \<in> set (kebab_normalize s)" and c: "c = to_lower d"
    by (auto simp: toLowerCase_def)
  from kebab_normalize_chars [OF d] show ?thesis unfolding c by (rule to_lower_class)
qed

lemma kebab_of_string_chars:
  assumes "c \<in> set (kebab_of_string s)"
  shows "is_lower_az c \<or> is_digit_09 c \<or> c = CHR ''-''"
proof (cases "c = CHR ''-''")
  case True
  then show ?thesis by simp
next
  case False
  let ?m = "toLowerCase (kebab_normalize s)"
  from assms have "c \<in> set (strip_hyphens (replace_spaces ''-'' ?m))"
    by (auto simp: kebab_of_string_def split: if_splits)
  then have "c \<in> set (replace_spaces ''-'' ?m)" using set_strip_hyphens by blast
  with False have "c \<in> set ?m" and "\<not> is_space c"
    using set_replace_spaces [of "''-''" ?m] by auto
  with lowered_chars [of c s] show ?thesis by (auto simp: class_defs)
qed

subsection \<open>Stripping a class of characters from both ends\<close>

lemma strip_both_prefix:
  assumes "P c"
  shows "\<not> prefix [c] (rev (dropWhile P (rev (dropWhile P s))))"
proof
  let ?t = "dropWhile P s"
  let ?d = "dropWhile P (rev ?t)"
  assume "prefix [c] (rev ?d)"
  then obtain r where r: "rev ?d = c # r" by (auto simp: prefix_def)
  have "rev (takeWhile P (rev ?t) @ ?d) = rev (rev ?t)"
    by (simp only: takeWhile_dropWhile_id)
  then have "rev ?d @ rev (takeWhile P (rev ?t)) = ?t"
    by (simp only: rev_append rev_rev_ident)
  then have "?t = rev ?d @ rev (takeWhile P (rev ?t))" by (rule sym)
  with r have "dropWhile P s = c # (r @ rev (takeWhile P (rev ?t)))" by simp
  then have "\<not> P c" by (simp add: dropWhile_eq_Cons_conv)
  with assms show False by simp
qed

lemma strip_both_suffix:
  assumes "P c"
  shows "\<not> suffix [c] (rev (dropWhile P (rev (dropWhile P s))))"
proof
  let ?d = "dropWhile P (rev (dropWhile P s))"
  assume "suffix [c] (rev ?d)"
  then have "prefix [c] ?d" by (simp add: suffix_to_prefix)
  then obtain r where "?d = c # r" by (auto simp: prefix_def)
  then have "\<not> P c" by (simp add: dropWhile_eq_Cons_conv)
  with assms show False by simp
qed


subsection \<open>Strings that \<open>toKebabCase\<close> leaves alone\<close>





subsection \<open>Runs of hyphens\<close>





section \<open>The steps of \<open>toDotCase\<close>\<close>

lemma split_on_pieces: "w \<in> set (split_on p s) \<Longrightarrow> c \<in> set w \<Longrightarrow> \<not> p c"
proof (induction p s arbitrary: w rule: split_on.induct)
  case (1 p s)
  let ?rest = "dropWhile (\<lambda>c. \<not> p c) s"
  show ?case
  proof (cases "w = takeWhile (\<lambda>c. \<not> p c) s")
    case True
    with "1.prems"(2) show ?thesis by (auto dest: set_takeWhileD)
  next
    case False
    with "1.prems"(1) have ne: "?rest \<noteq> []" and "w \<in> set (split_on p (dropWhile p ?rest))"
      by (auto simp: split_on.simps [of p s] Let_def split: if_splits)
    from "1.IH" [OF refl refl ne this(2) "1.prems"(2)] show ?thesis .
  qed
qed


lemma join_ends:
  assumes "ws \<noteq> []" and "\<forall>w\<in>set ws. w \<noteq> [] \<and> (\<forall>c\<in>set w. \<not> p c)"
  shows "join sep ws \<noteq> [] \<and> \<not> p (hd (join sep ws)) \<and> \<not> p (last (join sep ws))"
  using assms
proof (induction sep ws rule: join.induct)
  case (1 sep)
  then show ?case by simp
next
  case (2 sep w)
  then show ?case by simp
next
  case (3 sep w v vs)
  then have "join sep (v # vs) \<noteq> []" and "\<not> p (last (join sep (v # vs)))" by simp_all
  moreover have "w \<noteq> []" "\<not> p (hd w)" using 3(3) by simp_all
  ultimately show ?case by simp
qed

lemma sublist_double_skip: "h \<notin> set w \<Longrightarrow> sublist [h, h] (w @ xs) \<longleftrightarrow> sublist [h, h] xs"
  by (induction w) (auto simp: sublist_Cons_right)

lemma join_no_double:
  assumes "p h" and "\<forall>w\<in>set ws. w \<noteq> [] \<and> (\<forall>c\<in>set w. \<not> p c)"
  shows "\<not> sublist [h, h] (join [h] ws)"
  using assms(2)
proof (induction ws rule: induct_list012)
  case 1
  then show ?case by simp
next
  case (2 w)
  then have "h \<notin> set w" using assms(1) by auto
  then show ?case using sublist_double_skip [of h w "[]"] by simp
next
  case (3 w v vs)
  let ?r = "join [h] (v # vs)"
  have hw: "h \<notin> set w" using 3(3) assms(1) by auto
  have r: "?r \<noteq> [] \<and> \<not> p (hd ?r) \<and> \<not> p (last ?r)"
    using 3(3) by (intro join_ends) auto
  then have "\<not> prefix [h] ?r" using assms(1) by (cases ?r) auto
  moreover have "\<not> sublist [h, h] ?r" using 3(2) 3(3) by simp
  ultimately have "\<not> sublist [h, h] (h # ?r)" by (simp add: sublist_Cons_right)
  then have "\<not> sublist [h, h] (w @ h # ?r)" using sublist_double_skip [OF hw] by simp
  then show ?case by simp
qed


lemma toLowerCase_idem: "toLowerCase (toLowerCase w) = toLowerCase w"
  by (simp add: toLowerCase_def to_lower_idem)

lemma dot_of_string_join: "dot_of_string s = join ''.'' (dot_words s)"
proof (cases "trim s = []")
  case True
  have "split_on is_separator [] = [[]]" by (simp add: split_on.simps [of _ "[]"])
  with True show ?thesis by (simp add: dot_of_string_def dot_words_def)
next
  case False
  then show ?thesis by (auto simp: dot_of_string_def dot_words_def Let_def)
qed

lemma dot_words_ok:
  assumes "w \<in> set (dot_words s)"
  shows "w \<noteq> [] \<and> (\<forall>c\<in>set w. \<not> is_separator c) \<and> toLowerCase w = w"
proof -
  from assms obtain v where v: "v \<in> set (split_on is_separator (trim s))" "v \<noteq> []"
    and w: "w = toLowerCase v" by (auto simp: dot_words_def)
  have "\<forall>c\<in>set v. \<not> is_separator c" using split_on_pieces [OF v(1)] by blast
  then have "\<forall>c\<in>set w. \<not> is_separator c"
    unfolding w by (auto simp: toLowerCase_def to_lower_separator)
  moreover have "w \<noteq> []" using v(2) w by (simp add: toLowerCase_def)
  moreover have "toLowerCase w = w" unfolding w by (rule toLowerCase_idem)
  ultimately show ?thesis by simp
qed




section \<open>Results and outputs of the two implemented functions\<close>

lemma typeof_string: "typeof v = ''string'' \<longleftrightarrow> (\<exists>s. v = JString s)"
  by (cases v) simp_all

text \<open>
  The error for an input that is not a string, \<open>null\<close> or \<open>undefined\<close>: the documented
  \<open>TypeError\<close> when the input converts to a string, and otherwise what the conversion throws.
\<close>

lemma type_error_message:
  assumes "v \<noteq> JNull" and "v \<noteq> JUndefined" and "typeof v \<noteq> ''string''"
    and "js_to_string v = Inr r"
  shows "toKebabCase v
           = ([], Inl (TypeError (''Expected string input, received '' @ typeof v @ ''. Value: '' @ r)))"
    and "toDotCase v
           = Inl (TypeError (''Expected a string, null, or undefined, but received '' @ typeof v
               @ '': '' @ r))"
  using assms by (cases v; simp add: toKebabCase_def toDotCase_def)+

lemma conversion_error:
  assumes "v \<noteq> JNull" and "v \<noteq> JUndefined" and "typeof v \<noteq> ''string''"
    and "js_to_string v = Inl e"
  shows "toKebabCase v = ([], Inl e)" and "toDotCase v = Inl e"
  using assms by (cases v; simp add: toKebabCase_def toDotCase_def)+

lemma documented_type_errors:
  "toKebabCase (JNumber ''123'')
     = ([], Inl (TypeError ''Expected string input, received number. Value: 123'')) \<and>
   toKebabCase (JObject False (Inr ''[object Object]''))
     = ([], Inl (TypeError ''Expected string input, received object. Value: [object Object]'')) \<and>
   toKebabCase (JArray [JString ''array''])
     = ([], Inl (TypeError ''Expected string input, received object. Value: array'')) \<and>
   toDotCase (JBigInt 10)
     = Inl (TypeError ''Expected a string, null, or undefined, but received bigint: 10'')"
  by code_simp

lemma kebab_no_leading_hyphen: "\<not> prefix ''-'' (kebab_of_string s)"
  by (cases "s = []") (simp_all add: kebab_of_string_def strip_hyphens_def strip_both_prefix)

lemma kebab_no_trailing_hyphen: "\<not> suffix ''-'' (kebab_of_string s)"
  by (cases "s = []") (simp_all add: kebab_of_string_def strip_hyphens_def strip_both_suffix)

lemma dot_words_plain: "\<forall>w\<in>set (dot_words s). w \<noteq> [] \<and> (\<forall>c\<in>set w. \<not> is_separator c)"
  using dot_words_ok by blast

lemma dot_no_leading_dot: "\<not> prefix ''.'' (dot_of_string s)"
proof (cases "dot_words s = []")
  case True
  then show ?thesis by (simp add: dot_of_string_join)
next
  case False
  let ?y = "join ''.'' (dot_words s)"
  have "?y \<noteq> [] \<and> \<not> is_separator (hd ?y) \<and> \<not> is_separator (last ?y)"
    using False dot_words_plain by (rule join_ends)
  then show ?thesis using separator_dot by (cases ?y) (auto simp: dot_of_string_join)
qed

lemma dot_no_trailing_dot: "\<not> suffix ''.'' (dot_of_string s)"
proof (cases "dot_words s = []")
  case True
  then show ?thesis by (simp add: dot_of_string_join)
next
  case False
  let ?y = "join ''.'' (dot_words s)"
  have "?y \<noteq> [] \<and> \<not> is_separator (hd ?y) \<and> \<not> is_separator (last ?y)"
    using False dot_words_plain by (rule join_ends)
  then show ?thesis using separator_dot
    by (cases ?y rule: rev_cases) (auto simp: dot_of_string_join)
qed

lemma dot_no_double_dot: "\<not> sublist ''..'' (dot_of_string s)"
  unfolding dot_of_string_join using separator_dot dot_words_plain
  by (rule join_no_double)


section \<open>The claims\<close>

text \<open>
  C1: the literal scenarios. \<open>toKebabCase\<close> maps \<open>"hello world"\<close>, \<open>"hello_world"\<close>,
  \<open>"helloWorld"\<close>, \<open>"hello   world"\<close> and \<open>"hello, world!"\<close> to \<open>"hello-world"\<close>, writing
  no warning; \<open>toDotCase\<close> maps \<open>"HELLO_WORLD"\<close> and \<open>"hello!!!world???"\<close> to
  \<open>"hello.world"\<close>.
\<close>

theorem literal_scenarios:
  "toKebabCase (JString ''hello world'') = ([], Inr ''hello-world'') \<and>
   toKebabCase (JString ''hello_world'') = ([], Inr ''hello-world'') \<and>
   toKebabCase (JString ''helloWorld'') = ([], Inr ''hello-world'') \<and>
   toKebabCase (JString ''hello   world'') = ([], Inr ''hello-world'') \<and>
   toKebabCase (JString ''hello, world!'') = ([], Inr ''hello-world'') \<and>
   toDotCase (JString ''HELLO_WORLD'') = Inr ''hello.world'' \<and>
   toDotCase (JString ''hello!!!world???'') = Inr ''hello.world''"
  by code_simp

text \<open>
  C2: \<open>toDotCase\<close> splits only at separator characters, so a camelCase input stays one
  word: \<open>toDotCase("helloWorld")\<close> is \<open>"helloworld"\<close>, where the function's own
  documentation promises \<open>"hello.world"\<close>.
\<close>

theorem toDotCase_camel_input:
  "toDotCase (JString ''helloWorld'') = Inr ''helloworld''"
  by code_simp




text \<open>
  C4: \<open>toKebabCase\<close> and \<open>toDotCase\<close> map the empty string and three spaces to the empty
  string; \<open>toCamelCase\<close> returns \<open>undefined\<close> for both, not the empty string.
\<close>

theorem empty_and_blank_input:
  "toKebabCase (JString '''') = ([], Inr '''') \<and>
   toKebabCase (JString ''   '') = ([], Inr '''') \<and>
   toDotCase (JString '''') = Inr '''' \<and>
   toDotCase (JString ''   '') = Inr '''' \<and>
   toCamelCase (JString '''') = JUndefined \<and>
   toCamelCase (JString ''   '') = JUndefined \<and>
   JUndefined \<noteq> JString ''''"
  by code_simp

text \<open>
  C5: for a Symbol, which is neither \<open>null\<close>, \<open>undefined\<close> nor a string, \<open>toKebabCase\<close> and
  \<open>toDotCase\<close> do not throw the \<open>TypeError\<close> they document. The template literal of the
  message converts the Symbol to a string first, and that throws the engine's own
  \<open>TypeError\<close>, whose message holds neither the \<open>typeof\<close> of the value, \<open>symbol\<close>, nor its
  rendering, \<open>Symbol(x)\<close>. For an object whose \<open>toString\<close> throws, what leaves the functions
  is the value that \<open>toString\<close> threw.
\<close>

theorem symbol_input_error:
  "toKebabCase (JSymbol ''x'')
     = ([], Inl (TypeError ''Cannot convert a Symbol value to a string'')) \<and>
   toDotCase (JSymbol ''x'') = Inl (TypeError ''Cannot convert a Symbol value to a string'') \<and>
   typeof (JSymbol ''x'') = ''symbol'' \<and>
   \<not> sublist ''symbol'' ''Cannot convert a Symbol value to a string'' \<and>
   \<not> sublist ''Symbol(x)'' ''Cannot convert a Symbol value to a string'' \<and>
   toKebabCase (JObject False (Inl (Thrown ''boom''))) = ([], Inl (Thrown ''boom'')) \<and>
   toDotCase (JObject False (Inl (Thrown ''boom''))) = Inl (Thrown ''boom'')"
  by code_simp

text \<open>
  C6: for \<open>null\<close> and for \<open>undefined\<close>, \<open>toKebabCase\<close> and \<open>toDotCase\<close> return the empty
  string and throw nothing; \<open>toKebabCase\<close> also writes one warning to the console.
\<close>

theorem absent_input:
  "toKebabCase JNull = ([''Input is null or undefined, returning empty string''], Inr '''') \<and>
   toKebabCase JUndefined = ([''Input is null or undefined, returning empty string''], Inr '''') \<and>
   toDotCase JNull = Inr '''' \<and>
   toDotCase JUndefined = Inr ''''"
  by (simp add: toKebabCase_def toDotCase_def)

text \<open>
  C7: \<open>toCamelCase("convert-this-string")\<close> is \<open>undefined\<close>, not the string
  \<open>"convertThisString"\<close> of the function's documentation.
\<close>

theorem toCamelCase_convert_this_string:
  "toCamelCase (JString ''convert-this-string'') = JUndefined \<and>
   toCamelCase (JString ''convert-this-string'') \<noteq> JString ''convertThisString''"
  by (simp add: toCamelCase_def)





text \<open>
  C10: for every string input, the output of \<open>toKebabCase\<close> neither begins nor ends with
  a hyphen and holds no upper-case letter, underscore or white space; the output of
  \<open>toDotCase\<close> neither begins nor ends with a dot and holds no two dots in a row: it is a
  list of non-empty words without dots, joined by dots.
\<close>

theorem output_shape:
  "(\<exists>out. toKebabCase (JString s) = ([], Inr out) \<and>
      \<not> prefix ''-'' out \<and> \<not> suffix ''-'' out \<and>
      (\<forall>c\<in>set out. \<not> is_upper_AZ c \<and> to_lower c = c \<and> c \<noteq> CHR ''_'' \<and> \<not> is_space c)) \<and>
   (\<exists>out. toDotCase (JString s) = Inr out \<and>
      \<not> prefix ''.'' out \<and> \<not> suffix ''.'' out \<and> \<not> sublist ''..'' out \<and>
      (\<exists>ws. out = join ''.'' ws \<and> (\<forall>w\<in>set ws. w \<noteq> [] \<and> CHR ''.'' \<notin> set w)))"
proof (intro conjI)
  have "\<not> is_upper_AZ c \<and> to_lower c = c \<and> c \<noteq> CHR ''_'' \<and> \<not> is_space c"
    if "c \<in> set (kebab_of_string s)" for c
  proof -
    from kebab_of_string_chars [OF that]
    have c: "is_lower_az c \<or> is_digit_09 c \<or> c = CHR ''-''" .
    then have "to_lower c = c" by (rule to_lower_kebab_char)
    moreover from c have "\<not> is_upper_AZ c \<and> c \<noteq> CHR ''_'' \<and> \<not> is_space c"
      by (auto simp: class_defs)
    ultimately show ?thesis by simp
  qed
  then show "\<exists>out. toKebabCase (JString s) = ([], Inr out) \<and>
      \<not> prefix ''-'' out \<and> \<not> suffix ''-'' out \<and>
      (\<forall>c\<in>set out. \<not> is_upper_AZ c \<and> to_lower c = c \<and> c \<noteq> CHR ''_'' \<and> \<not> is_space c)"
    using kebab_no_leading_hyphen [of s] kebab_no_trailing_hyphen [of s]
    by (simp add: toKebabCase_def)
  have "\<forall>w\<in>set (dot_words s). w \<noteq> [] \<and> CHR ''.'' \<notin> set w"
    using dot_words_ok separator_dot by blast
  then have "\<exists>ws. dot_of_string s = join ''.'' ws \<and> (\<forall>w\<in>set ws. w \<noteq> [] \<and> CHR ''.'' \<notin> set w)"
    using dot_of_string_join by blast
  then show "\<exists>out. toDotCase (JString s) = Inr out \<and>
      \<not> prefix ''.'' out \<and> \<not> suffix ''.'' out \<and> \<not> sublist ''..'' out \<and>
      (\<exists>ws. out = join ''.'' ws \<and> (\<forall>w\<in>set ws. w \<noteq> [] \<and> CHR ''.'' \<notin> set w))"
    using dot_no_leading_dot [of s] dot_no_trailing_dot [of s] dot_no_double_dot [of s]
    by (simp add: toDotCase_def)
qed

theorem output_shape_witness:
  "toKebabCase (JString ''--Hello_World !-'') = ([], Inr ''hello-world'') \<and>
   \<not> prefix ''-'' ''hello-world'' \<and> \<not> suffix ''-'' ''hello-world'' \<and>
   list_all (\<lambda>c. \<not> is_upper_AZ c \<and> to_lower c = c \<and> c \<noteq> CHR ''_'' \<and> \<not> is_space c)
     ''hello-world'' \<and>
   toDotCase (JString ''..Hello__World.. '') = Inr ''hello.world'' \<and>
   \<not> prefix ''.'' ''hello.world'' \<and> \<not> suffix ''.'' ''hello.world'' \<and>
   \<not> sublist ''..'' ''hello.world''"
proof -
  have k: "toKebabCase (JString ''--Hello_World !-'') = ([], Inr ''hello-world'')" by code_simp
  have d: "toDotCase (JString ''..Hello__World.. '') = Inr ''hello.world''" by code_simp
  from output_shape [of "''--Hello_World !-''"] output_shape [of "''..Hello__World.. ''"]
  show ?thesis unfolding k d by (simp add: list_all_iff)
qed

end
